theory Spec2Isabelle
  imports Main "HOL-Library.AList"
begin

section \<open>Data model (pkg/models/instance.go)\<close>

text \<open>
  Go's \<^verbatim>\<open>time.Time\<close> is read as an instant on the wall clock, counted in nanoseconds as an
  unbounded integer; \<^verbatim>\<open>time.Duration\<close> is a signed 64-bit count of nanoseconds. The
  lifecycle state and the addresses are Go strings and stay strings here. A Go \<^verbatim>\<open>error\<close> is
  its message; a function that returns only an \<^verbatim>\<open>error\<close> returns \<open>None\<close> for \<^verbatim>\<open>nil\<close>.
\<close>

type_synonym Time = int
type_synonym Duration = int
type_synonym error = string

record InstanceStatus =
  ID :: string
  State :: string
  PublicIP :: string
  PrivateIP :: string
  Username :: string
  Ready :: bool

record Instance =
  ID :: string
  InstanceType :: string
  Provider :: string
  PublicIP :: string
  PrivateIP :: string
  State :: string
  LaunchTime :: Time
  Duration :: Duration
  AvailabilityZone :: string
  KeyName :: string
  Username :: string
  ExpiresAt :: Time

record InstanceRecord =
  Instance :: Instance
  CreatedAt :: Time
  UpdatedAt :: Time

text \<open>\<^verbatim>\<open>t.After(u)\<close> and \<^verbatim>\<open>t.Add(d)\<close> of package time.\<close>

definition After :: "Time \<Rightarrow> Time \<Rightarrow> bool" where
  "After t u = (u < t)"


definition maxDuration :: Duration where
  "maxDuration = 2 ^ 63 - 1"

definition minDuration :: Duration where
  "minDuration = - (2 ^ 63)"

text \<open>\<^verbatim>\<open>t.Sub(u)\<close> saturates at the ends of the 64-bit range.\<close>

definition Sub :: "Time \<Rightarrow> Time \<Rightarrow> Duration" where
  "Sub t u = (let d = t - u in
     if maxDuration < d then maxDuration else if d < minDuration then minDuration else d)"

text \<open>The zero \<^verbatim>\<open>time.Time{}\<close> is 1 January of year 1, in nanoseconds before the Unix epoch.\<close>

definition zeroTime :: Time where
  "zeroTime = - 62135596800 * 1000000000"

definition Second :: Duration where
  "Second = 1000000000"

section \<open>The environment: backing file, provider, clock, and the trace of calls\<close>

text \<open>
  pkg/storage/file.go keeps a map from instance id to record in one JSON file. The map is an
  association list here; its order stands for Go's unspecified iteration order. The file is
  absent or present, readable or not, and holds either bytes that \<^verbatim>\<open>json.Unmarshal\<close> rejects
  (\<open>Garbage\<close>) or the JSON of a storage record whose entries are records (no null entry).
  \<open>writable\<close> says whether \<^verbatim>\<open>saveData\<close> (marshal and \<^verbatim>\<open>os.WriteFile\<close>) succeeds.
\<close>

record StorageRecord =
  Instances :: "(string \<times> InstanceRecord) list"
  UpdatedAt :: Time

datatype file_content = Garbage | Json StorageRecord

record disk =
  present :: bool
  readable :: bool
  writable :: bool
  content :: file_content

text \<open>
  The provider is the interface \<^verbatim>\<open>cloud.CloudProvider\<close>: each operation may change the
  provider's own state \<open>'p\<close> and returns an error or a result. (\<^verbatim>\<open>CreateInstance\<close> and the
  provider's \<^verbatim>\<open>ListInstances\<close> are called by none of the functions below.)
\<close>

record 'p CloudProvider =
  GetInstanceStatus :: "string \<Rightarrow> 'p \<Rightarrow> (error + InstanceStatus) \<times> 'p"
  StartInstance :: "string \<Rightarrow> 'p \<Rightarrow> error option \<times> 'p"
  StopInstance :: "string \<Rightarrow> 'p \<Rightarrow> error option \<times> 'p"
  TerminateInstance :: "string \<Rightarrow> 'p \<Rightarrow> error option \<times> 'p"

text \<open>
  Every call on the provider and every mutating call on the storage is appended to a trace.
\<close>

datatype event =
    CallGetInstanceStatus string
  | CallStartInstance string
  | CallStopInstance string
  | CallTerminateInstance string
  | CallUpdateInstance Instance
  | CallSaveInstance Instance
  | CallDeleteInstance string

text \<open>
  The world: the backing file, the provider's state, the clock (the sequence of values that
  successive \<^verbatim>\<open>time.Now()\<close> calls return, and how many were taken), and the trace.
\<close>

record 'p world =
  disk :: disk
  cloud :: 'p
  clock :: "nat \<Rightarrow> Time"
  ticks :: nat
  trace :: "event list"

definition time_Now :: "'p world \<Rightarrow> Time \<times> 'p world" where
  "time_Now w = (clock w (ticks w), w\<lparr>ticks := Suc (ticks w)\<rparr>)"

definition time_Since :: "Time \<Rightarrow> 'p world \<Rightarrow> Duration \<times> 'p world" where
  "time_Since t w = (let (now, w) = time_Now w in (Sub now t, w))"

definition time_Until :: "Time \<Rightarrow> 'p world \<Rightarrow> Duration \<times> 'p world" where
  "time_Until t w = (let (now, w) = time_Now w in (Sub t now, w))"

definition record_call :: "event \<Rightarrow> 'p world \<Rightarrow> 'p world" where
  "record_call e w = w\<lparr>trace := trace w @ [e]\<rparr>"

definition provider_GetInstanceStatus ::
  "'p CloudProvider \<Rightarrow> string \<Rightarrow> 'p world \<Rightarrow> (error + InstanceStatus) \<times> 'p world" where
  "provider_GetInstanceStatus p instanceID w =
     (let (r, c) = GetInstanceStatus p instanceID (cloud w)
      in (r, record_call (CallGetInstanceStatus instanceID) (w\<lparr>cloud := c\<rparr>)))"

definition provider_StartInstance ::
  "'p CloudProvider \<Rightarrow> string \<Rightarrow> 'p world \<Rightarrow> error option \<times> 'p world" where
  "provider_StartInstance p instanceID w =
     (let (r, c) = StartInstance p instanceID (cloud w)
      in (r, record_call (CallStartInstance instanceID) (w\<lparr>cloud := c\<rparr>)))"

definition provider_StopInstance ::
  "'p CloudProvider \<Rightarrow> string \<Rightarrow> 'p world \<Rightarrow> error option \<times> 'p world" where
  "provider_StopInstance p instanceID w =
     (let (r, c) = StopInstance p instanceID (cloud w)
      in (r, record_call (CallStopInstance instanceID) (w\<lparr>cloud := c\<rparr>)))"

definition provider_TerminateInstance ::
  "'p CloudProvider \<Rightarrow> string \<Rightarrow> 'p world \<Rightarrow> error option \<times> 'p world" where
  "provider_TerminateInstance p instanceID w =
     (let (r, c) = TerminateInstance p instanceID (cloud w)
      in (r, record_call (CallTerminateInstance instanceID) (w\<lparr>cloud := c\<rparr>)))"

section \<open>Storage (pkg/storage/file.go)\<close>

definition loadData :: "disk \<Rightarrow> error + StorageRecord" where
  "loadData d =
     (if \<not> present d then Inr \<lparr>Instances = [], StorageRecord.UpdatedAt = zeroTime\<rparr>
      else if \<not> readable d then Inl ''failed to read storage file''
      else case content d of
             Garbage \<Rightarrow> Inl ''failed to unmarshal storage data''
           | Json r \<Rightarrow> Inr r)"

text \<open>A file that \<^verbatim>\<open>os.WriteFile\<close> creates is readable; one it overwrites keeps its mode.\<close>

definition saveData :: "StorageRecord \<Rightarrow> 'p world \<Rightarrow> error option \<times> 'p world" where
  "saveData data w =
     (if writable (disk w)
      then (None, w\<lparr>disk := (disk w)\<lparr>present := True,
                                       readable := (if present (disk w) then readable (disk w) else True),
                                       content := Json data\<rparr>\<rparr>)
      else (Some ''failed to write storage file'', w))"


definition GetInstance :: "string \<Rightarrow> disk \<Rightarrow> error + Instance" where
  "GetInstance instanceID d =
     (case loadData d of
        Inl err \<Rightarrow> Inl err
      | Inr data \<Rightarrow>
          (case map_of (Instances data) instanceID of
             None \<Rightarrow> Inl (''instance '' @ instanceID @ '' not found'')
           | Some record \<Rightarrow> Inr (Instance record)))"

text \<open>
  \<^verbatim>\<open>ListInstances\<close> returns the pair of Go's two results: the slice and the error.
\<close>

definition ListInstances :: "disk \<Rightarrow> Instance list \<times> error option" where
  "ListInstances d =
     (case loadData d of
        Inl err \<Rightarrow> ([], None)
      | Inr data \<Rightarrow> (map (\<lambda>(k, record). Instance record) (Instances data), None))"

definition UpdateInstance :: "Instance \<Rightarrow> 'p world \<Rightarrow> error option \<times> 'p world" where
  "UpdateInstance instance w0 =
     (let w = record_call (CallUpdateInstance instance) w0
      in case loadData (disk w) of
           Inl err \<Rightarrow> (Some err, w)
         | Inr data \<Rightarrow>
             (case map_of (Instances data) (Instance.ID instance) of
                None \<Rightarrow> (Some (''instance '' @ Instance.ID instance @ '' not found''), w)
              | Some record \<Rightarrow>
                  (let record = record\<lparr>Instance := instance\<rparr>;
                       (t1, w) = time_Now w;
                       record = record\<lparr>InstanceRecord.UpdatedAt := t1\<rparr>;
                       (t2, w) = time_Now w;
                       data = data\<lparr>Instances := AList.update (Instance.ID instance) record (Instances data),
                                   StorageRecord.UpdatedAt := t2\<rparr>
                   in saveData data w)))"

definition DeleteInstance :: "string \<Rightarrow> 'p world \<Rightarrow> error option \<times> 'p world" where
  "DeleteInstance instanceID w0 =
     (let w = record_call (CallDeleteInstance instanceID) w0
      in case loadData (disk w) of
           Inl err \<Rightarrow> (Some err, w)
         | Inr data \<Rightarrow>
             (let data = data\<lparr>Instances := AList.delete instanceID (Instances data)\<rparr>;
                  (t, w) = time_Now w;
                  data = data\<lparr>StorageRecord.UpdatedAt := t\<rparr>
              in saveData data w))"

section \<open>The scheduler (internal/scheduler/scheduler.go)\<close>

record 'p Scheduler =
  provider :: "'p CloudProvider"
  interval :: Duration
  reloadInterval :: Duration
  lastReload :: Time

definition NewScheduler :: "'p CloudProvider \<Rightarrow> 'p Scheduler" where
  "NewScheduler p =
     \<lparr>provider = p, interval = 30 * Second, reloadInterval = 10 * Second, lastReload = zeroTime\<rparr>"

definition IsExpired :: "Instance \<Rightarrow> 'p world \<Rightarrow> bool \<times> 'p world" where
  "IsExpired i w = (let (now, w) = time_Now w in (After now (ExpiresAt i), w))"

definition startInstance :: "'p Scheduler \<Rightarrow> string \<Rightarrow> 'p world \<Rightarrow> error option \<times> 'p world" where
  "startInstance s instanceID w = provider_StartInstance (provider s) instanceID w"

text \<open>
  The handlers mutate \<^verbatim>\<open>*instance\<close> in place; the model returns the instance as it is left.
  The durations they compute are only logged.
\<close>

definition handleExpiredInstance ::
  "'p Scheduler \<Rightarrow> Instance \<Rightarrow> 'p world \<Rightarrow> Instance \<times> 'p world" where
  "handleExpiredInstance s instance w0 =
     (let (timeOverdue, w) = time_Since (ExpiresAt instance) w0;
          (err, w) = provider_StopInstance (provider s) (Instance.ID instance) w
      in case err of
           Some e \<Rightarrow> (instance, w)
         | None \<Rightarrow>
             (let instance = instance\<lparr>Instance.State := ''stopping''\<rparr>;
                  (err, w) = UpdateInstance instance w
              in (instance, w)))"

definition handleStoppedInstance ::
  "'p Scheduler \<Rightarrow> Instance \<Rightarrow> 'p world \<Rightarrow> Instance \<times> 'p world" where
  "handleStoppedInstance s instance w0 =
     (let (timeRemaining, w) = time_Until (ExpiresAt instance) w0;
          (err, w) = startInstance s (Instance.ID instance) w
      in case err of
           Some e \<Rightarrow> (instance, w)
         | None \<Rightarrow>
             (let instance = instance\<lparr>Instance.State := ''pending''\<rparr>;
                  (err, w) = UpdateInstance instance w
              in (instance, w)))"

definition processInstance ::
  "'p Scheduler \<Rightarrow> Instance \<Rightarrow> 'p world \<Rightarrow> Instance \<times> 'p world" where
  "processInstance s instance w0 =
     (if Instance.State instance = ''terminated'' \<or> Instance.State instance = ''terminating''
      then (instance, w0)
      else case provider_GetInstanceStatus (provider s) (Instance.ID instance) w0 of
             (Inl err, w) \<Rightarrow> (instance, w)
           | (Inr status, w) \<Rightarrow>
               (let (instance, w) =
                      (if InstanceStatus.State status \<noteq> Instance.State instance
                       then (let instance = instance\<lparr>Instance.State := InstanceStatus.State status,
                                                      Instance.PublicIP := InstanceStatus.PublicIP status,
                                                      Instance.PrivateIP := InstanceStatus.PrivateIP status\<rparr>;
                                 (err, w) = UpdateInstance instance w
                             in (instance, w))
                       else (instance, w));
                    (expired, w) = IsExpired instance w
                in if expired
                   then (if InstanceStatus.State status = ''running''
                            \<or> InstanceStatus.State status = ''pending''
                         then handleExpiredInstance s instance w
                         else (instance, w))
                   else (let (now, w) = time_Now w
                         in if After (ExpiresAt instance) now
                               \<and> (InstanceStatus.State status = ''stopped''
                                    \<or> InstanceStatus.State status = ''stopping'')
                            then handleStoppedInstance s instance w
                            else (instance, w))))"

definition getInstancesWithReload ::
  "'p Scheduler \<Rightarrow> 'p world \<Rightarrow> (Instance list \<times> error option) \<times> 'p Scheduler \<times> 'p world" where
  "getInstancesWithReload s w0 =
     (let (since, w) = time_Since (lastReload s) w0;
          (s, w) = (if reloadInterval s < since
                    then (let (now, w) = time_Now w in (s\<lparr>lastReload := now\<rparr>, w))
                    else (s, w))
      in (ListInstances (disk w), s, w))"

text \<open>The \<^verbatim>\<open>for ... range instances\<close> loop of \<^verbatim>\<open>processInstances\<close>.\<close>

fun processEach :: "'p Scheduler \<Rightarrow> Instance list \<Rightarrow> 'p world \<Rightarrow> 'p world" where
  "processEach s [] w = w"
| "processEach s (instance # instances) w =
     processEach s instances (snd (processInstance s instance w))"

definition processInstances :: "'p Scheduler \<Rightarrow> 'p world \<Rightarrow> 'p Scheduler \<times> 'p world" where
  "processInstances s w0 =
     (case getInstancesWithReload s w0 of
        ((instances, Some err), s, w) \<Rightarrow> (s, w)
      | ((instances, None), s, w) \<Rightarrow> (s, processEach s instances w))"

definition RunOnce :: "'p Scheduler \<Rightarrow> 'p world \<Rightarrow> 'p Scheduler \<times> 'p world" where
  "RunOnce s w = processInstances s w"

section \<open>The web handlers that write \<^verbatim>\<open>ExpiresAt\<close> (pkg/webserver/server.go)\<close>

text \<open>
  A handler takes the request's method, its \<^verbatim>\<open>instance_id\<close> query parameter and, for the
  extension, the decoded body (or the decoding error), and returns the HTTP status it
  answers with. The server's provider is the first argument. \<^verbatim>\<open>utils.ParseDuration\<close> parses
  text with \<^verbatim>\<open>strconv\<close> and \<^verbatim>\<open>time.ParseDuration\<close>; it is an argument of the handler, so that
  what is proved holds for every parser.
\<close>

record ExtendInstanceRequest =
  Duration :: string



definition handleTerminateInstance ::
  "'p CloudProvider \<Rightarrow> string \<Rightarrow> string \<Rightarrow> 'p world \<Rightarrow> nat \<times> 'p world" where
  "handleTerminateInstance p method instanceID w0 =
     (if method \<noteq> ''POST'' then (405, w0)
      else if instanceID = [] then (400, w0)
      else case provider_TerminateInstance p instanceID w0 of
             (Some err, w) \<Rightarrow> (500, w)
           | (None, w) \<Rightarrow> (let (err, w) = DeleteInstance instanceID w in (200, w)))"

section \<open>Observing an evaluation\<close>

text \<open>
  The calls that a step from \<open>w\<close> to \<open>w'\<close> added to the trace; the record that the step synced
  (the \<^verbatim>\<open>UpdateInstance\<close> that directly follows the status query); and the action that the
  step decided (the first start or stop call it issued).
\<close>

definition issued :: "'p world \<Rightarrow> 'q world \<Rightarrow> event list" where
  "issued w w' = drop (length (trace w)) (trace w')"

fun synced :: "event list \<Rightarrow> Instance option" where
  "synced (CallGetInstanceStatus k # CallUpdateInstance j # es) = Some j"
| "synced es = None"

datatype Action = ActionNone | ActionStop | ActionStart

fun decided :: "event list \<Rightarrow> Action" where
  "decided [] = ActionNone"
| "decided (CallStopInstance k # es) = ActionStop"
| "decided (CallStartInstance k # es) = ActionStart"
| "decided (e # es) = decided es"

fun is_terminate :: "event \<Rightarrow> bool" where
  "is_terminate (CallTerminateInstance k) = True"
| "is_terminate e = False"

text \<open>The \<^verbatim>\<open>ExpiresAt\<close> that the backing file holds for an id, when the file loads.\<close>

definition stored_ExpiresAt :: "disk \<Rightarrow> string \<Rightarrow> Time option" where
  "stored_ExpiresAt d k =
     (case loadData d of
        Inl err \<Rightarrow> None
      | Inr data \<Rightarrow> map_option (\<lambda>r. ExpiresAt (Instance r)) (map_of (Instances data) k))"



section \<open>The test double of the scheduler's tests, and sample inputs\<close>

record MockProvider =
  instances :: "(string \<times> InstanceStatus) list"
  startCalls :: "string list"
  stopCalls :: "string list"
  terminateCalls :: "string list"

definition NewMockProvider :: MockProvider where
  "NewMockProvider = \<lparr>instances = [], startCalls = [], stopCalls = [], terminateCalls = []\<rparr>"

definition set_state :: "string \<Rightarrow> string \<Rightarrow> (string \<times> InstanceStatus) list
    \<Rightarrow> (string \<times> InstanceStatus) list" where
  "set_state instanceID st al =
     (case map_of al instanceID of
        None \<Rightarrow> al
      | Some status \<Rightarrow> AList.update instanceID (status\<lparr>InstanceStatus.State := st\<rparr>) al)"

definition mock_GetInstanceStatus ::
  "string \<Rightarrow> MockProvider \<Rightarrow> (error + InstanceStatus) \<times> MockProvider" where
  "mock_GetInstanceStatus instanceID m =
     (case map_of (instances m) instanceID of
        Some status \<Rightarrow> (Inr status, m)
      | None \<Rightarrow> (Inr \<lparr>InstanceStatus.ID = instanceID, InstanceStatus.State = ''running'',
                      InstanceStatus.PublicIP = ''1.2.3.4'', InstanceStatus.PrivateIP = [],
                      InstanceStatus.Username = ''ec2-user'', Ready = True\<rparr>, m))"

definition mock_StartInstance :: "string \<Rightarrow> MockProvider \<Rightarrow> error option \<times> MockProvider" where
  "mock_StartInstance instanceID m =
     (None, m\<lparr>startCalls := startCalls m @ [instanceID],
              instances := set_state instanceID ''pending'' (instances m)\<rparr>)"

definition mock_StopInstance :: "string \<Rightarrow> MockProvider \<Rightarrow> error option \<times> MockProvider" where
  "mock_StopInstance instanceID m =
     (None, m\<lparr>stopCalls := stopCalls m @ [instanceID],
              instances := set_state instanceID ''stopping'' (instances m)\<rparr>)"

definition mock_TerminateInstance :: "string \<Rightarrow> MockProvider \<Rightarrow> error option \<times> MockProvider" where
  "mock_TerminateInstance instanceID m =
     (None, m\<lparr>terminateCalls := terminateCalls m @ [instanceID],
              instances := set_state instanceID ''terminating'' (instances m)\<rparr>)"

definition mockProvider :: "MockProvider CloudProvider" where
  "mockProvider = \<lparr>GetInstanceStatus = mock_GetInstanceStatus, StartInstance = mock_StartInstance,
                    StopInstance = mock_StopInstance, TerminateInstance = mock_TerminateInstance\<rparr>"

definition SetInstanceStatus :: "string \<Rightarrow> string \<Rightarrow> MockProvider \<Rightarrow> MockProvider" where
  "SetInstanceStatus instanceID st m =
     (let al = (case map_of (instances m) instanceID of
                  None \<Rightarrow> AList.update instanceID
                            \<lparr>InstanceStatus.ID = instanceID, InstanceStatus.State = [],
                             InstanceStatus.PublicIP = [], InstanceStatus.PrivateIP = [],
                             InstanceStatus.Username = ''ec2-user'', Ready = False\<rparr> (instances m)
                | Some status \<Rightarrow> instances m)
      in m\<lparr>instances := set_state instanceID st al\<rparr>)"

text \<open>A provider whose every call fails.\<close>

definition downProvider :: "unit CloudProvider" where
  "downProvider = \<lparr>GetInstanceStatus = (\<lambda>k c. (Inl ''unreachable'', c)),
                    StartInstance = (\<lambda>k c. (Some ''unreachable'', c)),
                    StopInstance = (\<lambda>k c. (Some ''unreachable'', c)),
                    TerminateInstance = (\<lambda>k c. (Some ''unreachable'', c))\<rparr>"

text \<open>A provider status that reports the instance as stopped.\<close>

definition stoppedStatus :: "string \<Rightarrow> InstanceStatus" where
  "stoppedStatus k = \<lparr>InstanceStatus.ID = k, InstanceStatus.State = ''stopped'',
        InstanceStatus.PublicIP = [], InstanceStatus.PrivateIP = [],
        InstanceStatus.Username = ''ec2-user'', Ready = False\<rparr>"

text \<open>
  Sample inputs: an instance with the given id, state and expiry; a file that tracks the given
  instances; a world that starts at the given instant, with a clock that stands still.
\<close>

definition sampleInstance :: "string \<Rightarrow> string \<Rightarrow> Time \<Rightarrow> Instance" where
  "sampleInstance k st e =
     \<lparr>Instance.ID = k, InstanceType = ''t2.nano'', Provider = ''aws'', Instance.PublicIP = [],
      Instance.PrivateIP = [], Instance.State = st, LaunchTime = 0, Instance.Duration = e,
      AvailabilityZone = ''us-east-1a'', KeyName = ''key'', Instance.Username = ''ec2-user'',
      ExpiresAt = e\<rparr>"

definition sampleDisk :: "Instance list \<Rightarrow> disk" where
  "sampleDisk is =
     \<lparr>present = True, readable = True, writable = True,
      content = Json \<lparr>Instances = map (\<lambda>i. (Instance.ID i,
                                               \<lparr>Instance = i, CreatedAt = 0,
                                                InstanceRecord.UpdatedAt = 0\<rparr>)) is,
                      StorageRecord.UpdatedAt = 0\<rparr>\<rparr>"

definition sampleWorld :: "disk \<Rightarrow> 'p \<Rightarrow> Time \<Rightarrow> 'p world" where
  "sampleWorld d c now = \<lparr>disk = d, cloud = c, clock = (\<lambda>n. now), ticks = 0, trace = []\<rparr>"

section \<open>Unfolding the environment and the storage\<close>

lemmas env_defs = time_Now_def time_Since_def time_Until_def record_call_def
  provider_GetInstanceStatus_def provider_StartInstance_def provider_StopInstance_def
  provider_TerminateInstance_def

lemmas sched_defs = processInstance_def handleExpiredInstance_def handleStoppedInstance_def
  startInstance_def IsExpired_def After_def

lemmas sample_defs = sampleInstance_def sampleDisk_def sampleWorld_def NewScheduler_def
  mockProvider_def NewMockProvider_def SetInstanceStatus_def set_state_def
  mock_GetInstanceStatus_def mock_StartInstance_def mock_StopInstance_def
  mock_TerminateInstance_def downProvider_def

lemma saveData_trace [simp]: "trace (snd (saveData data w)) = trace w"
  and saveData_cloud [simp]: "cloud (snd (saveData data w)) = cloud w"
  and saveData_clock [simp]: "clock (snd (saveData data w)) = clock w"
  and saveData_ticks [simp]: "ticks (snd (saveData data w)) = ticks w"
  by (simp_all add: saveData_def)

lemma UpdateInstance_trace [simp]:
  "trace (snd (UpdateInstance j w)) = trace w @ [CallUpdateInstance j]"
  by (simp add: UpdateInstance_def env_defs Let_def split_def split: sum.splits option.splits)

lemma UpdateInstance_cloud [simp]: "cloud (snd (UpdateInstance j w)) = cloud w"
  by (simp add: UpdateInstance_def env_defs Let_def split_def split: sum.splits option.splits)

lemma UpdateInstance_clock [simp]: "clock (snd (UpdateInstance j w)) = clock w"
  by (simp add: UpdateInstance_def env_defs Let_def split_def split: sum.splits option.splits)

lemma UpdateInstance_stores:
  assumes "GetInstance (Instance.ID j) (disk w) = Inr old" and "writable (disk w)"
  shows "GetInstance (Instance.ID j) (disk (snd (UpdateInstance j w))) = Inr j"
  using assms
  by (auto simp: UpdateInstance_def GetInstance_def loadData_def saveData_def env_defs Let_def
      split_def update_conv' split: sum.splits option.splits if_splits file_content.splits)

lemma ListInstances_snd [simp]: "snd (ListInstances d) = None"
  by (simp add: ListInstances_def split: sum.splits)

lemma getInstancesWithReload_fst [simp]:
  "fst (getInstancesWithReload s w) = ListInstances (disk w)"
  by (simp add: getInstancesWithReload_def env_defs Let_def split_def)

lemma getInstancesWithReload_world [simp]:
  "trace (snd (snd (getInstancesWithReload s w))) = trace w"
  "disk (snd (snd (getInstancesWithReload s w))) = disk w"
  "cloud (snd (snd (getInstancesWithReload s w))) = cloud w"
  "clock (snd (snd (getInstancesWithReload s w))) = clock w"
  by (simp_all add: getInstancesWithReload_def env_defs Let_def split_def)

lemma getInstancesWithReload_provider [simp]:
  "provider (fst (snd (getInstancesWithReload s w))) = provider s"
  by (simp add: getInstancesWithReload_def env_defs Let_def split_def)

lemma processInstances_unfold:
  "snd (processInstances s w) =
     processEach (fst (snd (getInstancesWithReload s w))) (fst (ListInstances (disk w)))
       (snd (snd (getInstancesWithReload s w)))"
proof -
  obtain l e s' w' where g: "getInstancesWithReload s w = ((l, e), s', w')"
    by (cases "getInstancesWithReload s w") auto
  have "(l, e) = ListInstances (disk w)"
    using getInstancesWithReload_fst [of s w] g by simp
  then have "e = None" "l = fst (ListInstances (disk w))"
    using ListInstances_snd [of "disk w"] by (metis snd_conv, metis fst_conv)
  with g show ?thesis
    by (simp add: processInstances_def)
qed

section \<open>Drift sync precedes the decision\<close>



section \<open>Terminal records\<close>

text \<open>
  Claim C4. A record whose state is \<open>terminated\<close> or \<open>terminating\<close> is returned as it is and
  the world is untouched: no provider call, no storage call, no change of the file, whatever
  its \<open>ExpiresAt\<close>.
\<close>

theorem terminal_record_untouched:
  "Instance.State i = ''terminated'' \<or> Instance.State i = ''terminating''
     \<Longrightarrow> processInstance s i w = (i, w)"
  by (auto simp: processInstance_def)

theorem terminal_record_untouched_witness:
  "processInstance (NewScheduler mockProvider) (sampleInstance ''r3'' ''terminated'' 5000)
     (sampleWorld (sampleDisk [sampleInstance ''r3'' ''terminated'' 5000]) NewMockProvider 9000)
   = (sampleInstance ''r3'' ''terminated'' 5000,
      sampleWorld (sampleDisk [sampleInstance ''r3'' ''terminated'' 5000]) NewMockProvider 9000)"
  using terminal_record_untouched [of "sampleInstance ''r3'' ''terminated'' 5000"
      "NewScheduler mockProvider"
      "sampleWorld (sampleDisk [sampleInstance ''r3'' ''terminated'' 5000]) NewMockProvider 9000"]
  by (simp add: sampleInstance_def)

section \<open>A failed status query\<close>

text \<open>
  Claim C6. When the provider's status query fails, \<open>processInstance\<close> returns the record
  unchanged; the world differs only by the provider's own state after the query and by the
  query in the trace: the file is the same, no start or stop call and no storage call is
  made. (A terminal record is not even queried.)
\<close>

theorem query_failure_skips_record:
  "GetInstanceStatus (provider s) (Instance.ID i) (cloud w) = (Inl e, c) \<Longrightarrow>
   processInstance s i w =
     (i, if Instance.State i = ''terminated'' \<or> Instance.State i = ''terminating'' then w
         else w\<lparr>cloud := c, trace := trace w @ [CallGetInstanceStatus (Instance.ID i)]\<rparr>)"
  by (simp add: processInstance_def env_defs)

theorem query_failure_skips_record_witness:
  "processInstance (NewScheduler downProvider) (sampleInstance ''r1'' ''running'' 5000)
     (sampleWorld (sampleDisk [sampleInstance ''r1'' ''running'' 5000]) () 9000)
   = (sampleInstance ''r1'' ''running'' 5000,
      (sampleWorld (sampleDisk [sampleInstance ''r1'' ''running'' 5000]) () 9000)
        \<lparr>trace := [CallGetInstanceStatus ''r1'']\<rparr>)"
  using query_failure_skips_record [of "NewScheduler downProvider"
      "sampleInstance ''r1'' ''running'' 5000"
      "sampleWorld (sampleDisk [sampleInstance ''r1'' ''running'' 5000]) () 9000"
      "''unreachable''" "()"]
  by (simp add: sample_defs)

section \<open>Listing never fails\<close>



section \<open>When the scheduler syncs\<close>




section \<open>Expiry\<close>

text \<open>
  Claim C3, as stated, fails at the boundary: with the clock standing at \<open>ExpiresAt\<close>, a
  running record that the provider reports as running is not stopped; the pass only queries
  the status.
\<close>

theorem no_stop_at_expiry_instant:
  "ExpiresAt (sampleInstance ''r1'' ''running'' 5000) = 5000 \<and>
   fst (IsExpired (sampleInstance ''r1'' ''running'' 5000)
          (sampleWorld (sampleDisk [sampleInstance ''r1'' ''running'' 5000])
             (SetInstanceStatus ''r1'' ''running'' NewMockProvider) 5000)) = False \<and>
   issued (sampleWorld (sampleDisk [sampleInstance ''r1'' ''running'' 5000])
             (SetInstanceStatus ''r1'' ''running'' NewMockProvider) 5000)
     (snd (processInstance (NewScheduler mockProvider) (sampleInstance ''r1'' ''running'' 5000)
            (sampleWorld (sampleDisk [sampleInstance ''r1'' ''running'' 5000])
               (SetInstanceStatus ''r1'' ''running'' NewMockProvider) 5000)))
     = [CallGetInstanceStatus ''r1'']"
  by (simp add: sample_defs sched_defs env_defs issued_def Let_def split_def)

text \<open>
  Claim C3, amended. For a record that is not terminal and that the provider reports as
  \<open>running\<close> or \<open>pending\<close>: when every reading of the clock is strictly after \<open>ExpiresAt\<close> the
  pass decides to stop; when no reading is after \<open>ExpiresAt\<close> (the boundary instant
  included) it decides nothing.
\<close>

theorem stop_iff_strictly_expired:
  assumes "Instance.State i \<noteq> ''terminated''" and "Instance.State i \<noteq> ''terminating''"
    and "GetInstanceStatus (provider s) (Instance.ID i) (cloud w) = (Inr st, c)"
    and "InstanceStatus.State st = ''running'' \<or> InstanceStatus.State st = ''pending''"
  shows "((\<forall>n. ExpiresAt i < clock w n) \<longrightarrow>
            decided (issued w (snd (processInstance s i w))) = ActionStop) \<and>
         ((\<forall>n. clock w n \<le> ExpiresAt i) \<longrightarrow>
            decided (issued w (snd (processInstance s i w))) = ActionNone)"
proof (intro conjI impI)
  assume late: "\<forall>n. ExpiresAt i < clock w n"
  show "decided (issued w (snd (processInstance s i w))) = ActionStop"
  proof (cases "InstanceStatus.State st = Instance.State i")
    case True
    with assms late show ?thesis
      by (auto simp: sched_defs env_defs issued_def Let_def split_def split: option.splits)
  next
    case False
    with assms late show ?thesis
      by (auto simp: sched_defs env_defs issued_def Let_def split_def split: option.splits)
  qed
next
  assume "\<forall>n. clock w n \<le> ExpiresAt i"
  then have early: "\<forall>n. \<not> ExpiresAt i < clock w n"
    by (simp add: not_less)
  show "decided (issued w (snd (processInstance s i w))) = ActionNone"
  proof (cases "InstanceStatus.State st = Instance.State i")
    case True
    with assms early show ?thesis
      by (auto simp: sched_defs env_defs issued_def Let_def split_def split: option.splits)
  next
    case False
    with assms early show ?thesis
      by (auto simp: sched_defs env_defs issued_def Let_def split_def split: option.splits)
  qed
qed

theorem stop_iff_strictly_expired_witness:
  "decided (issued (sampleWorld (sampleDisk [sampleInstance ''r1'' ''running'' 5000])
                      NewMockProvider 5001)
             (snd (processInstance (NewScheduler mockProvider)
                    (sampleInstance ''r1'' ''running'' 5000)
                    (sampleWorld (sampleDisk [sampleInstance ''r1'' ''running'' 5000])
                       NewMockProvider 5001)))) = ActionStop \<and>
   decided (issued (sampleWorld (sampleDisk [sampleInstance ''r1'' ''running'' 5000])
                      NewMockProvider 5000)
             (snd (processInstance (NewScheduler mockProvider)
                    (sampleInstance ''r1'' ''running'' 5000)
                    (sampleWorld (sampleDisk [sampleInstance ''r1'' ''running'' 5000])
                       NewMockProvider 5000)))) = ActionNone"
  using stop_iff_strictly_expired [of "sampleInstance ''r1'' ''running'' 5000"
      "NewScheduler mockProvider"
      "sampleWorld (sampleDisk [sampleInstance ''r1'' ''running'' 5000]) NewMockProvider 5001"
      "\<lparr>InstanceStatus.ID = ''r1'', InstanceStatus.State = ''running'',
        InstanceStatus.PublicIP = ''1.2.3.4'', InstanceStatus.PrivateIP = [],
        InstanceStatus.Username = ''ec2-user'', Ready = True\<rparr>"
      NewMockProvider]
    stop_iff_strictly_expired [of "sampleInstance ''r1'' ''running'' 5000"
      "NewScheduler mockProvider"
      "sampleWorld (sampleDisk [sampleInstance ''r1'' ''running'' 5000]) NewMockProvider 5000"
      "\<lparr>InstanceStatus.ID = ''r1'', InstanceStatus.State = ''running'',
        InstanceStatus.PublicIP = ''1.2.3.4'', InstanceStatus.PrivateIP = [],
        InstanceStatus.Username = ''ec2-user'', Ready = True\<rparr>"
      NewMockProvider]
  by (simp add: sample_defs)

section \<open>Stopping an expired record\<close>

text \<open>
  Claim C7. \<open>handleExpiredInstance\<close> calls the provider's stop. When the call succeeds the
  record's state becomes \<open>stopping\<close> and the record is handed to \<open>UpdateInstance\<close>, which
  stores it when the file is writable and tracks the id. When the call fails the record is
  returned as it was and nothing but the stop call (and one reading of the clock) happened:
  no state is written and the storage is not called.
\<close>

theorem stop_outcome_sets_local_state:
  "(StopInstance (provider s) (Instance.ID i) (cloud w) = (None, c) \<longrightarrow>
      fst (handleExpiredInstance s i w) = i\<lparr>Instance.State := ''stopping''\<rparr> \<and>
      issued w (snd (handleExpiredInstance s i w)) =
        [CallStopInstance (Instance.ID i),
         CallUpdateInstance (i\<lparr>Instance.State := ''stopping''\<rparr>)] \<and>
      (writable (disk w) \<and> GetInstance (Instance.ID i) (disk w) = Inr old \<longrightarrow>
         GetInstance (Instance.ID i) (disk (snd (handleExpiredInstance s i w)))
           = Inr (i\<lparr>Instance.State := ''stopping''\<rparr>))) \<and>
   (StopInstance (provider s) (Instance.ID i) (cloud w) = (Some e, c) \<longrightarrow>
      handleExpiredInstance s i w =
        (i, w\<lparr>ticks := Suc (ticks w), cloud := c,
              trace := trace w @ [CallStopInstance (Instance.ID i)]\<rparr>))"
proof (intro conjI impI)
  assume ok: "StopInstance (provider s) (Instance.ID i) (cloud w) = (None, c)"
  show "fst (handleExpiredInstance s i w) = i\<lparr>Instance.State := ''stopping''\<rparr>"
    using ok by (simp add: handleExpiredInstance_def env_defs Let_def split_def)
  show "issued w (snd (handleExpiredInstance s i w)) =
        [CallStopInstance (Instance.ID i),
         CallUpdateInstance (i\<lparr>Instance.State := ''stopping''\<rparr>)]"
    using ok by (simp add: handleExpiredInstance_def env_defs issued_def Let_def split_def)
  assume h: "writable (disk w) \<and> GetInstance (Instance.ID i) (disk w) = Inr old"
  let ?w = "w\<lparr>ticks := Suc (ticks w), cloud := c,
               trace := trace w @ [CallStopInstance (Instance.ID i)]\<rparr>"
  have "GetInstance (Instance.ID (i\<lparr>Instance.State := ''stopping''\<rparr>))
          (disk (snd (UpdateInstance (i\<lparr>Instance.State := ''stopping''\<rparr>) ?w)))
        = Inr (i\<lparr>Instance.State := ''stopping''\<rparr>)"
    by (rule UpdateInstance_stores [where old = old]) (use h in simp_all)
  then show "GetInstance (Instance.ID i) (disk (snd (handleExpiredInstance s i w)))
           = Inr (i\<lparr>Instance.State := ''stopping''\<rparr>)"
    using ok by (simp add: handleExpiredInstance_def env_defs Let_def split_def)
next
  assume "StopInstance (provider s) (Instance.ID i) (cloud w) = (Some e, c)"
  then show "handleExpiredInstance s i w =
        (i, w\<lparr>ticks := Suc (ticks w), cloud := c,
              trace := trace w @ [CallStopInstance (Instance.ID i)]\<rparr>)"
    by (simp add: handleExpiredInstance_def env_defs Let_def split_def)
qed

theorem stop_outcome_sets_local_state_witness:
  "fst (handleExpiredInstance (NewScheduler mockProvider) (sampleInstance ''r1'' ''running'' 5000)
         (sampleWorld (sampleDisk [sampleInstance ''r1'' ''running'' 5000]) NewMockProvider 9000))
     = sampleInstance ''r1'' ''stopping'' 5000 \<and>
   GetInstance ''r1''
     (disk (snd (handleExpiredInstance (NewScheduler mockProvider)
                   (sampleInstance ''r1'' ''running'' 5000)
                   (sampleWorld (sampleDisk [sampleInstance ''r1'' ''running'' 5000])
                      NewMockProvider 9000))))
     = Inr (sampleInstance ''r1'' ''stopping'' 5000) \<and>
   handleExpiredInstance (NewScheduler downProvider) (sampleInstance ''r1'' ''running'' 5000)
     (sampleWorld (sampleDisk [sampleInstance ''r1'' ''running'' 5000]) () 9000)
     = (sampleInstance ''r1'' ''running'' 5000,
        (sampleWorld (sampleDisk [sampleInstance ''r1'' ''running'' 5000]) () 9000)
          \<lparr>ticks := 1, trace := [CallStopInstance ''r1'']\<rparr>)"
  using stop_outcome_sets_local_state [of "NewScheduler mockProvider"
      "sampleInstance ''r1'' ''running'' 5000"
      "sampleWorld (sampleDisk [sampleInstance ''r1'' ''running'' 5000]) NewMockProvider 9000"
      "NewMockProvider\<lparr>stopCalls := [''r1'']\<rparr>" "sampleInstance ''r1'' ''running'' 5000"
      "''unreachable''"]
    stop_outcome_sets_local_state [of "NewScheduler downProvider"
      "sampleInstance ''r1'' ''running'' 5000"
      "sampleWorld (sampleDisk [sampleInstance ''r1'' ''running'' 5000]) () 9000"
      "()" "sampleInstance ''r1'' ''running'' 5000" "''unreachable''"]
  by (simp add: sample_defs GetInstance_def loadData_def)

section \<open>The decision depends on the record, the live status and the time only\<close>

lemma decided_processInstance:
  assumes now: "\<forall>n. clock w n = now"
  shows "decided (issued w (snd (processInstance s i w))) =
     (if Instance.State i = ''terminated'' \<or> Instance.State i = ''terminating'' then ActionNone
      else case fst (GetInstanceStatus (provider s) (Instance.ID i) (cloud w)) of
             Inl e \<Rightarrow> ActionNone
           | Inr st \<Rightarrow>
               if ExpiresAt i < now
               then (if InstanceStatus.State st = ''running'' \<or> InstanceStatus.State st = ''pending''
                     then ActionStop else ActionNone)
               else if now < ExpiresAt i
                       \<and> (InstanceStatus.State st = ''stopped'' \<or> InstanceStatus.State st = ''stopping'')
                    then ActionStart else ActionNone)"
proof (cases "Instance.State i = ''terminated'' \<or> Instance.State i = ''terminating''")
  case True
  then show ?thesis
    by (auto simp: processInstance_def issued_def)
next
  case False
  note live = this
  obtain r c where q: "GetInstanceStatus (provider s) (Instance.ID i) (cloud w) = (r, c)"
    by (cases "GetInstanceStatus (provider s) (Instance.ID i) (cloud w)")
  show ?thesis
  proof (cases r)
    case (Inl e)
    with live q show ?thesis
      by (simp add: processInstance_def env_defs issued_def)
  next
    case (Inr st)
    show ?thesis
    proof (cases "InstanceStatus.State st = Instance.State i")
      case True
      with live q Inr now show ?thesis
        by (auto simp: sched_defs env_defs issued_def Let_def split_def split: option.splits)
    next
      case False
      with live q Inr now show ?thesis
        by (auto simp: sched_defs env_defs issued_def Let_def split_def split: option.splits)
    qed
  qed
qed

lemma synced_processInstance:
  "synced (issued w (snd (processInstance s i w))) =
     (if Instance.State i = ''terminated'' \<or> Instance.State i = ''terminating'' then None
      else case fst (GetInstanceStatus (provider s) (Instance.ID i) (cloud w)) of
             Inl e \<Rightarrow> None
           | Inr st \<Rightarrow>
               if InstanceStatus.State st \<noteq> Instance.State i
               then Some (i\<lparr>Instance.State := InstanceStatus.State st,
                            Instance.PublicIP := InstanceStatus.PublicIP st,
                            Instance.PrivateIP := InstanceStatus.PrivateIP st\<rparr>)
               else None)"
proof (cases "Instance.State i = ''terminated'' \<or> Instance.State i = ''terminating''")
  case True
  then show ?thesis
    by (auto simp: processInstance_def issued_def)
next
  case False
  note live = this
  obtain r c where q: "GetInstanceStatus (provider s) (Instance.ID i) (cloud w) = (r, c)"
    by (cases "GetInstanceStatus (provider s) (Instance.ID i) (cloud w)")
  show ?thesis
  proof (cases r)
    case (Inl e)
    with live q show ?thesis
      by (simp add: processInstance_def env_defs issued_def)
  next
    case (Inr st)
    show ?thesis
    proof (cases "InstanceStatus.State st = Instance.State i")
      case True
      with live q Inr show ?thesis
        by (simp add: sched_defs env_defs issued_def Let_def split_def split: option.splits)
    next
      case False
      with live q Inr show ?thesis
        by (simp add: sched_defs env_defs issued_def Let_def split_def split: option.splits)
    qed
  qed
qed

text \<open>
  Claim C9. Two evaluations of \<open>processInstance\<close> on the same record, in which the status
  query gives the same answer and the clock stands at the same instant, decide the same
  action and sync the same record, whatever else differs: the scheduler and its provider,
  the provider's state, the file, the trace and the number of clock readings so far.
\<close>

theorem decision_is_deterministic:
  assumes "fst (GetInstanceStatus (provider s1) (Instance.ID i) (cloud w1))
         = fst (GetInstanceStatus (provider s2) (Instance.ID i) (cloud w2))"
    and "\<forall>n. clock w1 n = now" and "\<forall>n. clock w2 n = now"
  shows "decided (issued w1 (snd (processInstance s1 i w1)))
           = decided (issued w2 (snd (processInstance s2 i w2))) \<and>
         synced (issued w1 (snd (processInstance s1 i w1)))
           = synced (issued w2 (snd (processInstance s2 i w2)))"
  using assms
  by (simp add: decided_processInstance [where now = now] synced_processInstance)

theorem decision_is_deterministic_witness:
  "decided (issued (sampleWorld (sampleDisk [sampleInstance ''r2'' ''running'' 5000])
                      (SetInstanceStatus ''r2'' ''stopped'' NewMockProvider) 1000)
             (snd (processInstance (NewScheduler mockProvider)
                    (sampleInstance ''r2'' ''running'' 5000)
                    (sampleWorld (sampleDisk [sampleInstance ''r2'' ''running'' 5000])
                       (SetInstanceStatus ''r2'' ''stopped'' NewMockProvider) 1000))))
   = decided (issued (sampleWorld (sampleDisk []) () 1000)
             (snd (processInstance
                    (NewScheduler (downProvider\<lparr>GetInstanceStatus :=
                                       (\<lambda>k c. (Inr (stoppedStatus k), c))\<rparr>))
                    (sampleInstance ''r2'' ''running'' 5000)
                    (sampleWorld (sampleDisk []) () 1000))))"
  using decision_is_deterministic [of "NewScheduler mockProvider"
      "sampleInstance ''r2'' ''running'' 5000"
      "sampleWorld (sampleDisk [sampleInstance ''r2'' ''running'' 5000])
         (SetInstanceStatus ''r2'' ''stopped'' NewMockProvider) 1000"
      "NewScheduler (downProvider\<lparr>GetInstanceStatus := (\<lambda>k c. (Inr (stoppedStatus k), c))\<rparr>)"
      "sampleWorld (sampleDisk []) () 1000" 1000]
  by (simp add: sample_defs stoppedStatus_def)

section \<open>The pass never terminates an instance\<close>

lemma processInstance_trace:
  "\<exists>es. trace (snd (processInstance s i w)) = trace w @ es \<and> filter is_terminate es = []"
proof (cases "Instance.State i = ''terminated'' \<or> Instance.State i = ''terminating''")
  case True
  then show ?thesis
    by (auto simp: processInstance_def)
next
  case False
  note live = this
  obtain r c where q: "GetInstanceStatus (provider s) (Instance.ID i) (cloud w) = (r, c)"
    by (cases "GetInstanceStatus (provider s) (Instance.ID i) (cloud w)")
  show ?thesis
  proof (cases r)
    case (Inl e)
    with live q show ?thesis
      by (simp add: processInstance_def env_defs)
  next
    case (Inr st)
    show ?thesis
    proof (cases "InstanceStatus.State st = Instance.State i")
      case True
      with live q Inr show ?thesis
        by (simp add: sched_defs env_defs Let_def split_def split: option.splits)
    next
      case False
      with live q Inr show ?thesis
        by (simp add: sched_defs env_defs Let_def split_def split: option.splits)
    qed
  qed
qed

lemma processEach_trace:
  "\<exists>es. trace (processEach s is w) = trace w @ es \<and> filter is_terminate es = []"
proof (induction "is" arbitrary: w)
  case Nil
  then show ?case by simp
next
  case (Cons i "is")
  obtain es1 where e1: "trace (snd (processInstance s i w)) = trace w @ es1"
      "filter is_terminate es1 = []"
    using processInstance_trace by blast
  obtain es2 where e2: "trace (processEach s is (snd (processInstance s i w)))
        = trace (snd (processInstance s i w)) @ es2" "filter is_terminate es2 = []"
    using Cons.IH by blast
  have "trace (processEach s (i # is) w) = trace w @ (es1 @ es2)"
    using e1 e2 by simp
  moreover have "filter is_terminate (es1 @ es2) = []"
    using e1 e2 by simp
  ultimately show ?case by blast
qed

text \<open>
  Claim C8. Among the calls that one reconciliation pass adds to the trace, none is a call
  of the provider's \<open>TerminateInstance\<close>.
\<close>

theorem pass_never_terminates:
  "filter is_terminate (issued w (snd (processInstances s w))) = []"
proof -
  obtain es where "trace (snd (processInstances s w))
      = trace (snd (snd (getInstancesWithReload s w))) @ es" "filter is_terminate es = []"
    unfolding processInstances_unfold using processEach_trace by blast
  then show ?thesis
    by (simp add: issued_def)
qed

theorem pass_never_terminates_witness:
  "filter is_terminate
     (issued (sampleWorld (sampleDisk [sampleInstance ''r1'' ''running'' 5000]) NewMockProvider 9000)
        (snd (processInstances (NewScheduler mockProvider)
               (sampleWorld (sampleDisk [sampleInstance ''r1'' ''running'' 5000])
                  NewMockProvider 9000)))) = []"
  by (rule pass_never_terminates)

section \<open>Writes of \<open>ExpiresAt\<close>\<close>


lemma stored_ExpiresAt_Json:
  "present d \<Longrightarrow> readable d \<Longrightarrow> content d = Json data \<Longrightarrow>
   stored_ExpiresAt d k = map_option (\<lambda>r. ExpiresAt (Instance r)) (map_of (Instances data) k)"
  by (simp add: stored_ExpiresAt_def loadData_def)


















end
